theory Spec2Isabelle
  imports Main
begin

section \<open>The declaration-reference resolver (AstReferenceResolver)\<close>

text \<open>
  A shallow embedding of \<^verbatim>\<open>AstReferenceResolver\<close> and \<^verbatim>\<open>ResolverFailure\<close>.
  The resolver returns either an \<^verbatim>\<open>AstDeclaration\<close> or a \<^verbatim>\<open>ResolverFailure\<close>; the
  model returns a sum whose left injection is the failure.  The classes the resolver
  imports (the TSDoc reference nodes, the TypeScript syntax kinds, the symbol table, the
  working package and the declaration nodes) are modelled by the members the resolver
  reads; the methods it calls on them are fields holding functions, so every theorem
  holds for whatever these collaborators compute.
\<close>

subsection \<open>Failures\<close>

datatype ResolverFailure = ResolverFailure (reason: string)

subsection \<open>TypeScript syntax kinds and TSDoc reference nodes\<close>

text \<open>
  \<^verbatim>\<open>ts.SyntaxKind\<close>: the seven kinds the resolver names, and every other member of the
  enumeration by its number.
\<close>

datatype SyntaxKind =
    ClassDeclaration
  | EnumDeclaration
  | FunctionDeclaration
  | InterfaceDeclaration
  | ModuleDeclaration
  | TypeAliasDeclaration
  | VariableDeclaration
  | OtherSyntaxKind nat

text \<open>\<^verbatim>\<open>tsdoc.SelectorKind\<close>.\<close>

datatype SelectorKind = Error | Label | Index | System

text \<open>
  \<^verbatim>\<open>tsdoc.DocMemberSelector\<close>: the member \<^verbatim>\<open>selector\<close> (the selector's text) is the
  field \<open>selectorName\<close>, after the local variable that reads it.
\<close>

record DocMemberSelector =
  selectorKind :: SelectorKind
  selectorName :: string

text \<open>
  \<^verbatim>\<open>tsdoc.DocMemberIdentifier\<close>: its member \<^verbatim>\<open>identifier\<close> is the field
  \<open>identifierText\<close>.
\<close>

datatype DocMemberIdentifier = DocMemberIdentifier (identifierText: string)

text \<open>
  \<^verbatim>\<open>tsdoc.DocMemberSymbol\<close>: the resolver only tests whether one is present; the text of
  its symbol reference stands for it.
\<close>

datatype DocMemberSymbol = DocMemberSymbol string

text \<open>\<^verbatim>\<open>tsdoc.DocMemberReference\<close>; an absent member (\<^verbatim>\<open>undefined\<close>) is \<open>None\<close>.\<close>

record DocMemberReference =
  memberSymbol :: "DocMemberSymbol option"
  memberIdentifier :: "DocMemberIdentifier option"
  selector :: "DocMemberSelector option"

text \<open>\<^verbatim>\<open>tsdoc.DocDeclarationReference\<close>.\<close>

record DocDeclarationReference =
  packageName :: "string option"
  importPath :: "string option"
  memberReferences :: "DocMemberReference list"

subsection \<open>The compiler state the resolver walks\<close>

text \<open>
  \<^verbatim>\<open>AstDeclaration\<close>: the resolver reads \<^verbatim>\<open>declaration.kind\<close> (the field
  \<open>declarationKind\<close>) and calls \<^verbatim>\<open>findChildrenWithName(name)\<close>, which gives the children
  of the node that carry this name.
\<close>

datatype AstDeclaration =
  AstDeclaration (declarationKind: SyntaxKind) (findChildrenWithName: "string \<Rightarrow> AstDeclaration list")

text \<open>
  \<^verbatim>\<open>AstEntity\<close>: an \<^verbatim>\<open>AstSymbol\<close> with its \<^verbatim>\<open>localName\<close> and its
  \<^verbatim>\<open>astDeclarations\<close>, or an \<^verbatim>\<open>AstImport\<close>.
\<close>

datatype AstEntity =
    AstSymbol string "AstDeclaration list"
  | AstImport

datatype SourceFile = SourceFile string

datatype AstModule = AstModule string

record WorkingPackage =
  name :: string
  entryPointSourceFile :: SourceFile

text \<open>
  \<^verbatim>\<open>AstSymbolTable\<close>: the two methods the resolver calls. \<^verbatim>\<open>tryGetExportOfAstModule\<close>
  gives \<open>None\<close> where the method returns \<^verbatim>\<open>undefined\<close>.
\<close>

record AstSymbolTable =
  fetchAstModuleFromWorkingPackage :: "SourceFile \<Rightarrow> AstModule"
  tryGetExportOfAstModule :: "string \<Rightarrow> AstModule \<Rightarrow> AstEntity option"

subsection \<open>The resolver\<close>

text \<open>
  \<^verbatim>\<open>_getMemberReferenceIdentifier\<close>: the identifier of a member reference, or the failure
  for a symbol-keyed or an identifier-less reference.
\<close>

definition getMemberReferenceIdentifier :: "DocMemberReference \<Rightarrow> ResolverFailure + string" where
  "getMemberReferenceIdentifier memberReference =
     (if memberSymbol memberReference \<noteq> None then
        Inl (ResolverFailure ''ECMAScript symbol selectors are not supported'')
      else
        (case memberIdentifier memberReference of
           None \<Rightarrow> Inl (ResolverFailure ''The member identifier is missing in the root member reference'')
         | Some ident \<Rightarrow> Inr (identifierText ident)))"

text \<open>
  The \<^verbatim>\<open>switch\<close> of \<^verbatim>\<open>_selectDeclaration\<close> over the selector's text; \<open>None\<close> is its
  \<^verbatim>\<open>default\<close> branch.
\<close>

definition selectorSyntaxKind :: "string \<Rightarrow> SyntaxKind option" where
  "selectorSyntaxKind tag =
     (if tag = ''class'' then Some ClassDeclaration
      else if tag = ''enum'' then Some EnumDeclaration
      else if tag = ''function'' then Some FunctionDeclaration
      else if tag = ''interface'' then Some InterfaceDeclaration
      else if tag = ''namespace'' then Some ModuleDeclaration
      else if tag = ''type'' then Some TypeAliasDeclaration
      else if tag = ''variable'' then Some VariableDeclaration
      else None)"

text \<open>
  \<^verbatim>\<open>_selectDeclaration\<close>. Both reads of element 0 stand behind a test that the list has
  exactly one element.
\<close>

definition selectDeclaration ::
  "AstDeclaration list \<Rightarrow> DocMemberReference \<Rightarrow> string \<Rightarrow> ResolverFailure + AstDeclaration" where
  \<open>selectDeclaration astDeclarations memberReference astSymbolName =
     (case selector memberReference of
        None \<Rightarrow>
          (if length astDeclarations = 1 then Inr (astDeclarations ! 0)
           else
             Inl (ResolverFailure
               (''The reference is ambiguous because "'' @ astSymbolName @ ''"'' @
                '' has more than one declaration; you need to add a TSDoc member reference selector'')))
      | Some sel \<Rightarrow>
          (if selectorKind sel \<noteq> System then
             Inl (ResolverFailure
               (''The selector "'' @ selectorName sel @ ''" is not a supported selector type''))
           else
             (case selectorSyntaxKind (selectorName sel) of
                None \<Rightarrow>
                  Inl (ResolverFailure (''Unsupported system selector "'' @ selectorName sel @ ''"''))
              | Some kind \<Rightarrow>
                  (let matches = filter (\<lambda>x. declarationKind x = kind) astDeclarations in
                   if length matches = 0 then
                     Inl (ResolverFailure
                       (''A declaration for "'' @ astSymbolName @ ''" was not found that matches the'' @
                        '' TSDoc selector "'' @ selectorName sel @ ''"''))
                   else if length matches > 1 then
                     Inl (ResolverFailure
                       (''More than one declaration "'' @ astSymbolName @ ''" matches the'' @
                        '' TSDoc selector "'' @ selectorName sel @ ''"''))
                   else Inr (matches ! 0)))))\<close>

text \<open>
  The \<^verbatim>\<open>for\<close> loop of \<^verbatim>\<open>resolve\<close> over the member references after the first: the
  first argument is \<^verbatim>\<open>currentDeclaration\<close>, the second the references from \<^verbatim>\<open>index\<close> on.
\<close>

fun resolve_loop :: "AstDeclaration \<Rightarrow> DocMemberReference list \<Rightarrow> ResolverFailure + AstDeclaration" where
  \<open>resolve_loop currentDeclaration [] = Inr currentDeclaration\<close>
| \<open>resolve_loop currentDeclaration (memberReference # later) =
     (case getMemberReferenceIdentifier memberReference of
        Inl failure \<Rightarrow> Inl failure
      | Inr memberName \<Rightarrow>
          (let matchingChildren = findChildrenWithName currentDeclaration memberName in
           if length matchingChildren = 0 then
             Inl (ResolverFailure (''No member was found with name "'' @ memberName @ ''"''))
           else
             (case selectDeclaration matchingChildren memberReference memberName of
                Inl failure \<Rightarrow> Inl failure
              | Inr selectedDeclaration \<Rightarrow> resolve_loop selectedDeclaration later)))\<close>

text \<open>
  The test \<^verbatim>\<open>if (declarationReference.importPath)\<close> on a value that is a string or
  \<^verbatim>\<open>undefined\<close>: \<^verbatim>\<open>undefined\<close> and the empty string are falsy, every other string
  is truthy.
\<close>

definition truthy :: "string option \<Rightarrow> bool" where
  "truthy s = (case s of None \<Rightarrow> False | Some path \<Rightarrow> path \<noteq> [])"

text \<open>\<^verbatim>\<open>resolve\<close>.\<close>

definition resolve ::
  "AstSymbolTable \<Rightarrow> WorkingPackage \<Rightarrow> DocDeclarationReference \<Rightarrow> ResolverFailure + AstDeclaration" where
  \<open>resolve astSymbolTable workingPackage declarationReference =
     (if packageName declarationReference \<noteq> None \<and>
         packageName declarationReference \<noteq> Some (name workingPackage) then
        Inl (ResolverFailure ''External package references are not supported'')
      else if truthy (importPath declarationReference) then
        Inl (ResolverFailure ''Import paths are not supported'')
      else
        (let astModule =
           fetchAstModuleFromWorkingPackage astSymbolTable (entryPointSourceFile workingPackage) in
         case memberReferences declarationReference of
           [] \<Rightarrow> Inl (ResolverFailure ''Package references are not supported'')
         | rootMemberReference # later \<Rightarrow>
             (case getMemberReferenceIdentifier rootMemberReference of
                Inl failure \<Rightarrow> Inl failure
              | Inr exportName \<Rightarrow>
                  (case tryGetExportOfAstModule astSymbolTable exportName astModule of
                     None \<Rightarrow>
                       Inl (ResolverFailure
                         (''The package "'' @ name workingPackage @
                          ''" does not have an export "'' @ exportName @ ''"''))
                   | Some AstImport \<Rightarrow>
                       Inl (ResolverFailure ''Reexported declarations are not supported'')
                   | Some (AstSymbol localName astDeclarations) \<Rightarrow>
                       (case selectDeclaration astDeclarations rootMemberReference localName of
                          Inl failure \<Rightarrow> Inl failure
                        | Inr currentDeclaration \<Rightarrow> resolve_loop currentDeclaration later)))))\<close>

subsection \<open>The failure kinds of the error taxonomy\<close>

text \<open>
  The resolver has one failure class and tells the kinds apart by the reason text. Each
  kind below is the failure value that the resolver constructs at that kind's trigger,
  with the text of the source.
\<close>

definition UnsupportedExternalPackage :: ResolverFailure where
  "UnsupportedExternalPackage = ResolverFailure ''External package references are not supported''"

definition UnsupportedImportPath :: ResolverFailure where
  "UnsupportedImportPath = ResolverFailure ''Import paths are not supported''"

definition UnsupportedSymbolSelector :: ResolverFailure where
  "UnsupportedSymbolSelector = ResolverFailure ''ECMAScript symbol selectors are not supported''"

definition NoMatchingMember :: "string \<Rightarrow> ResolverFailure" where
  \<open>NoMatchingMember memberName =
     ResolverFailure (''No member was found with name "'' @ memberName @ ''"'')\<close>

definition AmbiguousReference :: "string \<Rightarrow> ResolverFailure" where
  \<open>AmbiguousReference astSymbolName =
     ResolverFailure
       (''The reference is ambiguous because "'' @ astSymbolName @ ''"'' @
        '' has more than one declaration; you need to add a TSDoc member reference selector'')\<close>

definition UnsupportedSelectorValue :: "string \<Rightarrow> ResolverFailure" where
  \<open>UnsupportedSelectorValue tag = ResolverFailure (''Unsupported system selector "'' @ tag @ ''"'')\<close>

definition NoDeclarationForSelector :: "string \<Rightarrow> string \<Rightarrow> ResolverFailure" where
  \<open>NoDeclarationForSelector astSymbolName tag =
     ResolverFailure
       (''A declaration for "'' @ astSymbolName @ ''" was not found that matches the'' @
        '' TSDoc selector "'' @ tag @ ''"'')\<close>

definition AmbiguousSelectorMatch :: "string \<Rightarrow> string \<Rightarrow> ResolverFailure" where
  \<open>AmbiguousSelectorMatch astSymbolName tag =
     ResolverFailure
       (''More than one declaration "'' @ astSymbolName @ ''" matches the'' @
        '' TSDoc selector "'' @ tag @ ''"'')\<close>

subsection \<open>A working package to run the resolver on\<close>

text \<open>
  The package \<^verbatim>\<open>widgets\<close>: a class \<^verbatim>\<open>Button\<close> with a member \<^verbatim>\<open>onClick\<close>, a name
  \<^verbatim>\<open>Shape\<close> declared as an interface and as a class, a class \<^verbatim>\<open>Widget\<close> with the one
  member \<^verbatim>\<open>render\<close>, a re-exported name \<^verbatim>\<open>Legacy\<close>, a namespace \<^verbatim>\<open>Geometry\<close> declared
  twice, and nested namespaces \<^verbatim>\<open>Shapes.Solid\<close> holding a class \<^verbatim>\<open>Cube\<close>.
\<close>

definition onClick :: AstDeclaration where
  "onClick = AstDeclaration FunctionDeclaration (\<lambda>childName. [])"

definition buttonClass :: AstDeclaration where
  "buttonClass =
     AstDeclaration ClassDeclaration (\<lambda>childName. if childName = ''onClick'' then [onClick] else [])"

definition shapeInterface :: AstDeclaration where
  "shapeInterface = AstDeclaration InterfaceDeclaration (\<lambda>childName. [])"

definition shapeClass :: AstDeclaration where
  "shapeClass = AstDeclaration ClassDeclaration (\<lambda>childName. [])"

definition render :: AstDeclaration where
  "render = AstDeclaration FunctionDeclaration (\<lambda>childName. [])"

definition widgetClass :: AstDeclaration where
  "widgetClass =
     AstDeclaration ClassDeclaration (\<lambda>childName. if childName = ''render'' then [render] else [])"

definition circleClass :: AstDeclaration where
  "circleClass = AstDeclaration ClassDeclaration (\<lambda>childName. [])"

definition squareClass :: AstDeclaration where
  "squareClass = AstDeclaration ClassDeclaration (\<lambda>childName. [])"

definition geometryFirst :: AstDeclaration where
  "geometryFirst =
     AstDeclaration ModuleDeclaration (\<lambda>childName. if childName = ''Circle'' then [circleClass] else [])"

definition geometrySecond :: AstDeclaration where
  "geometrySecond =
     AstDeclaration ModuleDeclaration (\<lambda>childName. if childName = ''Square'' then [squareClass] else [])"

definition cubeClass :: AstDeclaration where
  "cubeClass = AstDeclaration ClassDeclaration (\<lambda>childName. [])"

definition solidNamespace :: AstDeclaration where
  "solidNamespace =
     AstDeclaration ModuleDeclaration (\<lambda>childName. if childName = ''Cube'' then [cubeClass] else [])"

definition shapesNamespace :: AstDeclaration where
  "shapesNamespace =
     AstDeclaration ModuleDeclaration
       (\<lambda>childName. if childName = ''Solid'' then [solidNamespace] else [])"

definition widgetsExports :: "string \<Rightarrow> AstModule \<Rightarrow> AstEntity option" where
  "widgetsExports exportName astModule =
     (if astModule \<noteq> AstModule ''index'' then None
      else if exportName = ''Button'' then Some (AstSymbol ''Button'' [buttonClass])
      else if exportName = ''Shape'' then Some (AstSymbol ''Shape'' [shapeInterface, shapeClass])
      else if exportName = ''Widget'' then Some (AstSymbol ''Widget'' [widgetClass])
      else if exportName = ''Legacy'' then Some AstImport
      else if exportName = ''Geometry'' then Some (AstSymbol ''Geometry'' [geometryFirst, geometrySecond])
      else if exportName = ''Shapes'' then Some (AstSymbol ''Shapes'' [shapesNamespace])
      else None)"

definition widgetsTable :: AstSymbolTable where
  "widgetsTable =
     \<lparr> fetchAstModuleFromWorkingPackage = (\<lambda>sourceFile. AstModule ''index''),
       tryGetExportOfAstModule = widgetsExports \<rparr>"

definition widgets :: WorkingPackage where
  "widgets = \<lparr> name = ''widgets'', entryPointSourceFile = SourceFile ''index.d.ts'' \<rparr>"

text \<open>A member reference with a plain identifier and no selector, as in \<^verbatim>\<open>Button\<close>.\<close>

definition plainMember :: "string \<Rightarrow> DocMemberReference" where
  "plainMember memberName =
     \<lparr> memberSymbol = None,
       memberIdentifier = Some (DocMemberIdentifier memberName),
       selector = None \<rparr>"

text \<open>A member reference with a system selector, as in \<^verbatim>\<open>Shape:class\<close>.\<close>

definition systemMember :: "string \<Rightarrow> string \<Rightarrow> DocMemberReference" where
  "systemMember memberName tag =
     \<lparr> memberSymbol = None,
       memberIdentifier = Some (DocMemberIdentifier memberName),
       selector = Some \<lparr> selectorKind = System, selectorName = tag \<rparr> \<rparr>"

text \<open>A member reference with neither a symbol nor an identifier.\<close>

definition bareMember :: DocMemberReference where
  "bareMember = \<lparr> memberSymbol = None, memberIdentifier = None, selector = None \<rparr>"

text \<open>A reference into the working package itself: no package name, no import path.\<close>

definition localReference :: "DocMemberReference list \<Rightarrow> DocDeclarationReference" where
  "localReference members =
     \<lparr> packageName = None, importPath = None, memberReferences = members \<rparr>"

section \<open>Properties of the narrowing step\<close>

text \<open>
  The \<^verbatim>\<open>switch\<close> takes its \<^verbatim>\<open>default\<close> branch exactly on the texts that are none of the
  seven tags.
\<close>

lemma selectorSyntaxKind_None:
  "(selectorSyntaxKind tag = None) =
     (tag \<notin> {''class'', ''enum'', ''function'', ''interface'', ''namespace'', ''type'', ''variable''})"
  by (simp add: selectorSyntaxKind_def)

text \<open>A declaration that the narrowing step returns is one of its candidates.\<close>

lemma selectDeclaration_member:
  assumes "selectDeclaration astDeclarations memberReference astSymbolName = Inr d"
  shows "d \<in> set astDeclarations"
proof (cases "selector memberReference")
  case None
  with assms have "length astDeclarations = 1" and "d = astDeclarations ! 0"
    by (auto simp: selectDeclaration_def split: if_splits)
  then show ?thesis by (cases astDeclarations) auto
next
  case (Some sel)
  with assms obtain k where
    some: "filter (\<lambda>x. declarationKind x = k) astDeclarations \<noteq> []"
    and d: "d = filter (\<lambda>x. declarationKind x = k) astDeclarations ! 0"
    by (auto simp: selectDeclaration_def Let_def split: if_splits option.splits)
  from some d have "d \<in> set (filter (\<lambda>x. declarationKind x = k) astDeclarations)"
    by (cases "filter (\<lambda>x. declarationKind x = k) astDeclarations") auto
  then show ?thesis by simp
qed

text \<open>
  C1: a non-empty candidate list narrowed by a member reference without a selector. If
  the list has exactly one element, the narrowing step returns that element; if it has
  more than one, the step returns the \<open>AmbiguousReference\<close> failure and no node.
\<close>

theorem selectDeclaration_no_selector:
  assumes "selector memberReference = None"
    and "astDeclarations \<noteq> []"
  shows "(\<forall>d. astDeclarations = [d] \<longrightarrow>
            selectDeclaration astDeclarations memberReference astSymbolName = Inr d) \<and>
         (length astDeclarations > 1 \<longrightarrow>
            selectDeclaration astDeclarations memberReference astSymbolName =
              Inl (AmbiguousReference astSymbolName))"
  using assms by (auto simp: selectDeclaration_def AmbiguousReference_def)

text \<open>
  The one declaration of \<^verbatim>\<open>Button\<close> is returned; the two declarations of \<^verbatim>\<open>Shape\<close>
  are ambiguous.
\<close>

theorem selectDeclaration_no_selector_witness:
  "selector (plainMember ''Button'') = None \<and>
   selector (plainMember ''Shape'') = None \<and>
   selectDeclaration [buttonClass] (plainMember ''Button'') ''Button'' = Inr buttonClass \<and>
   selectDeclaration [shapeInterface, shapeClass] (plainMember ''Shape'') ''Shape'' =
     Inl (AmbiguousReference ''Shape'')"
  using
    selectDeclaration_no_selector
      [where memberReference = "plainMember ''Button''" and astDeclarations = "[buttonClass]"
         and astSymbolName = "''Button''"]
    selectDeclaration_no_selector
      [where memberReference = "plainMember ''Shape''"
         and astDeclarations = "[shapeInterface, shapeClass]" and astSymbolName = "''Shape''"]
  by (simp add: plainMember_def)

text \<open>
  C2: a non-empty candidate list narrowed by a member reference whose selector is a
  system selector with one of the seven tags. The candidates are filtered to those whose
  declaration kind is the kind the tag maps to. With no candidate left the step fails
  with \<open>NoDeclarationForSelector\<close>, with more than one left it fails with
  \<open>AmbiguousSelectorMatch\<close>, and with exactly one left it returns that node.
\<close>

theorem selectDeclaration_kind_selector:
  assumes "selector memberReference = Some sel"
    and "selectorKind sel = System"
    and "selectorSyntaxKind (selectorName sel) = Some k"
    and "astDeclarations \<noteq> []"
  shows "(filter (\<lambda>x. declarationKind x = k) astDeclarations = [] \<longrightarrow>
            selectDeclaration astDeclarations memberReference astSymbolName =
              Inl (NoDeclarationForSelector astSymbolName (selectorName sel))) \<and>
         (length (filter (\<lambda>x. declarationKind x = k) astDeclarations) > 1 \<longrightarrow>
            selectDeclaration astDeclarations memberReference astSymbolName =
              Inl (AmbiguousSelectorMatch astSymbolName (selectorName sel))) \<and>
         (\<forall>d. filter (\<lambda>x. declarationKind x = k) astDeclarations = [d] \<longrightarrow>
            selectDeclaration astDeclarations memberReference astSymbolName = Inr d)"
  using assms
  by (simp add: selectDeclaration_def NoDeclarationForSelector_def AmbiguousSelectorMatch_def Let_def)

text \<open>
  \<^verbatim>\<open>Shape:enum\<close> matches no declaration, \<^verbatim>\<open>Geometry:namespace\<close> matches two, and
  \<^verbatim>\<open>Shape:class\<close> gives the class.
\<close>

theorem selectDeclaration_kind_selector_witness:
  "selectorSyntaxKind ''enum'' = Some EnumDeclaration \<and>
   selectDeclaration [shapeInterface, shapeClass] (systemMember ''Shape'' ''enum'') ''Shape'' =
     Inl (NoDeclarationForSelector ''Shape'' ''enum'') \<and>
   selectorSyntaxKind ''namespace'' = Some ModuleDeclaration \<and>
   selectDeclaration [geometryFirst, geometrySecond] (systemMember ''Geometry'' ''namespace'')
       ''Geometry'' =
     Inl (AmbiguousSelectorMatch ''Geometry'' ''namespace'') \<and>
   selectorSyntaxKind ''class'' = Some ClassDeclaration \<and>
   selectDeclaration [shapeInterface, shapeClass] (systemMember ''Shape'' ''class'') ''Shape'' =
     Inr shapeClass"
  using
    selectDeclaration_kind_selector
      [where memberReference = "systemMember ''Shape'' ''enum''"
         and sel = "\<lparr> selectorKind = System, selectorName = ''enum'' \<rparr>"
         and k = EnumDeclaration and astDeclarations = "[shapeInterface, shapeClass]"
         and astSymbolName = "''Shape''"]
    selectDeclaration_kind_selector
      [where memberReference = "systemMember ''Geometry'' ''namespace''"
         and sel = "\<lparr> selectorKind = System, selectorName = ''namespace'' \<rparr>"
         and k = ModuleDeclaration and astDeclarations = "[geometryFirst, geometrySecond]"
         and astSymbolName = "''Geometry''"]
    selectDeclaration_kind_selector
      [where memberReference = "systemMember ''Shape'' ''class''"
         and sel = "\<lparr> selectorKind = System, selectorName = ''class'' \<rparr>"
         and k = ClassDeclaration and astDeclarations = "[shapeInterface, shapeClass]"
         and astSymbolName = "''Shape''"]
  by (simp add: systemMember_def selectorSyntaxKind_def shapeInterface_def shapeClass_def
      geometryFirst_def geometrySecond_def)

text \<open>
  A system selector whose tag is none of the seven takes the \<^verbatim>\<open>default\<close> branch: the
  narrowing step fails for that tag on every candidate list.
\<close>

lemma selectDeclaration_unrecognized_tag:
  assumes "selector memberReference = Some sel"
    and "selectorKind sel = System"
    and "selectorName sel \<notin>
           {''class'', ''enum'', ''function'', ''interface'', ''namespace'', ''type'', ''variable''}"
  shows "selectDeclaration astDeclarations memberReference astSymbolName =
           Inl (UnsupportedSelectorValue (selectorName sel))"
proof -
  have "selectorSyntaxKind (selectorName sel) = None"
    unfolding selectorSyntaxKind_None by (rule assms(3))
  with assms(1,2) show ?thesis
    by (simp add: selectDeclaration_def UnsupportedSelectorValue_def)
qed

text \<open>
  C9: the narrowing step on the empty candidate list with no selector. The test for
  exactly one element fails, so the step returns the failure whose reason speaks of more
  than one declaration; it reads no element and returns no node.
\<close>

theorem selectDeclaration_empty_no_selector:
  assumes "selector memberReference = None"
  shows \<open>selectDeclaration [] memberReference astSymbolName =
     Inl (ResolverFailure
       (''The reference is ambiguous because "'' @ astSymbolName @
        ''" has more than one declaration; you need to add a TSDoc member reference selector''))\<close>
  using assms by (simp add: selectDeclaration_def)

theorem selectDeclaration_empty_no_selector_witness:
  \<open>selector (plainMember ''Ghost'') = None \<and>
   selectDeclaration [] (plainMember ''Ghost'') ''Ghost'' =
     Inl (ResolverFailure
       ''The reference is ambiguous because "Ghost" has more than one declaration; you need to add a TSDoc member reference selector'')\<close>
  using selectDeclaration_empty_no_selector
    [where memberReference = "plainMember ''Ghost''" and astSymbolName = "''Ghost''"]
  by (simp add: plainMember_def)

section \<open>Properties of resolve\<close>

text \<open>
  The loop over a list of member references in two parts: the second part starts from
  the declaration the first part ends in, and is not run when the first part fails.
\<close>

lemma resolve_loop_append:
  "resolve_loop currentDeclaration (xs @ ys) =
     (case resolve_loop currentDeclaration xs of
        Inl failure \<Rightarrow> Inl failure
      | Inr d \<Rightarrow> resolve_loop d ys)"
  by (induction xs arbitrary: currentDeclaration) (auto simp: Let_def split: sum.splits)

text \<open>
  Resolving a reference whose member references are \<open>pre @ post\<close>, with \<open>pre\<close> not
  empty: the reference cut down to \<open>pre\<close> is resolved first, and the loop goes on over
  \<open>post\<close> from its result.
\<close>

lemma resolve_prefix:
  assumes "pre \<noteq> []"
  shows "resolve st wp (ref\<lparr>memberReferences := pre @ post\<rparr>) =
     (case resolve st wp (ref\<lparr>memberReferences := pre\<rparr>) of
        Inl failure \<Rightarrow> Inl failure
      | Inr d \<Rightarrow> resolve_loop d post)"
proof -
  from assms obtain r rs where pre: "pre = r # rs"
    by (cases pre) auto
  show ?thesis
    unfolding pre
    by (simp add: resolve_def resolve_loop_append Let_def
        split: sum.splits option.splits AstEntity.splits)
qed

text \<open>One step of the loop that succeeds: the reference names the children it chose from.\<close>

lemma resolve_loop_single:
  assumes "resolve_loop n [c] = Inr d"
  shows "\<exists>memberName. memberIdentifier c = Some (DocMemberIdentifier memberName) \<and>
           d \<in> set (findChildrenWithName n memberName)"
proof -
  from assms obtain memberName where ident: "getMemberReferenceIdentifier c = Inr memberName"
    and sel: "selectDeclaration (findChildrenWithName n memberName) c memberName = Inr d"
    by (auto simp: Let_def split: sum.splits if_splits)
  from ident have "memberIdentifier c = Some (DocMemberIdentifier memberName)"
    by (auto simp: getMemberReferenceIdentifier_def split: if_splits option.splits)
  with selectDeclaration_member [OF sel] show ?thesis by blast
qed

text \<open>
  A failure of the narrowing step is what \<open>resolve\<close> returns, at the first segment and
  at every later one.
\<close>

lemma resolve_root_narrowing_failure:
  assumes "packageName ref = None \<or> packageName ref = Some (name wp)"
    and "importPath ref = None \<or> importPath ref = Some []"
    and "memberReferences ref = rootMemberReference # later"
    and "getMemberReferenceIdentifier rootMemberReference = Inr exportName"
    and "tryGetExportOfAstModule st exportName
           (fetchAstModuleFromWorkingPackage st (entryPointSourceFile wp)) =
         Some (AstSymbol localName astDeclarations)"
    and "selectDeclaration astDeclarations rootMemberReference localName = Inl failure"
  shows "resolve st wp ref = Inl failure"
  using assms by (auto simp: resolve_def truthy_def)

lemma resolve_loop_narrowing_failure:
  assumes "getMemberReferenceIdentifier memberReference = Inr memberName"
    and "findChildrenWithName currentDeclaration memberName \<noteq> []"
    and "selectDeclaration (findChildrenWithName currentDeclaration memberName)
           memberReference memberName = Inl failure"
  shows "resolve_loop currentDeclaration (memberReference # later) = Inl failure"
  using assms by simp

text \<open>
  C3, as the code has it: a segment with a plain identifier that carries a system selector
  whose tag is none of the seven recognized ones, at any position, in a resolution that
  reaches the narrowing of this segment. For the first segment this means that the
  qualifier checks pass and the identifier is an export bound to a symbol; for a later
  segment, that the reference cut before the segment resolves to a declaration with at
  least one child of this name. \<open>resolve\<close> then returns the \<open>UnsupportedSelectorValue\<close>
  failure for the tag, whatever the number of candidates (the declarations of the
  symbol, or the children of this name) and whatever segments come later.
\<close>

theorem resolve_unrecognized_tag:
  assumes "selector seg = Some sel"
    and "selectorKind sel = System"
    and "selectorName sel \<notin>
           {''class'', ''enum'', ''function'', ''interface'', ''namespace'', ''type'', ''variable''}"
    and "memberSymbol seg = None"
    and "memberIdentifier seg = Some (DocMemberIdentifier memberName)"
    and "(pre = [] \<and>
          (packageName ref = None \<or> packageName ref = Some (name wp)) \<and>
          (importPath ref = None \<or> importPath ref = Some []) \<and>
          (\<exists>localName astDeclarations.
             tryGetExportOfAstModule st memberName
               (fetchAstModuleFromWorkingPackage st (entryPointSourceFile wp)) =
             Some (AstSymbol localName astDeclarations))) \<or>
         (\<exists>currentDeclaration.
            resolve st wp (ref\<lparr>memberReferences := pre\<rparr>) = Inr currentDeclaration \<and>
            findChildrenWithName currentDeclaration memberName \<noteq> [])"
  shows "resolve st wp (ref\<lparr>memberReferences := pre @ seg # later\<rparr>) =
           Inl (UnsupportedSelectorValue (selectorName sel))"
proof -
  have narrowing: "selectDeclaration candidates seg candidatesName =
      Inl (UnsupportedSelectorValue (selectorName sel))" for candidates candidatesName
    using assms(1-3) by (rule selectDeclaration_unrecognized_tag)
  have ident: "getMemberReferenceIdentifier seg = Inr memberName"
    using assms(4,5) by (simp add: getMemberReferenceIdentifier_def)
  from assms(6) consider
    (root) localName astDeclarations where "pre = []"
      and "packageName ref = None \<or> packageName ref = Some (name wp)"
      and "importPath ref = None \<or> importPath ref = Some []"
      and "tryGetExportOfAstModule st memberName
             (fetchAstModuleFromWorkingPackage st (entryPointSourceFile wp)) =
           Some (AstSymbol localName astDeclarations)"
  | (descent) currentDeclaration where
      "resolve st wp (ref\<lparr>memberReferences := pre\<rparr>) = Inr currentDeclaration"
      and "findChildrenWithName currentDeclaration memberName \<noteq> []"
    by blast
  then show ?thesis
  proof cases
    case root
    have "resolve st wp (ref\<lparr>memberReferences := seg # later\<rparr>) =
        Inl (UnsupportedSelectorValue (selectorName sel))"
    proof (rule resolve_root_narrowing_failure)
      show "packageName (ref\<lparr>memberReferences := seg # later\<rparr>) = None \<or>
          packageName (ref\<lparr>memberReferences := seg # later\<rparr>) = Some (name wp)"
        using root(2) by simp
      show "importPath (ref\<lparr>memberReferences := seg # later\<rparr>) = None \<or>
          importPath (ref\<lparr>memberReferences := seg # later\<rparr>) = Some []"
        using root(3) by simp
      show "memberReferences (ref\<lparr>memberReferences := seg # later\<rparr>) = seg # later"
        by simp
      show "getMemberReferenceIdentifier seg = Inr memberName"
        by (rule ident)
      show "tryGetExportOfAstModule st memberName
             (fetchAstModuleFromWorkingPackage st (entryPointSourceFile wp)) =
           Some (AstSymbol localName astDeclarations)"
        by (rule root(4))
      show "selectDeclaration astDeclarations seg localName =
          Inl (UnsupportedSelectorValue (selectorName sel))"
        by (rule narrowing)
    qed
    with root(1) show ?thesis by simp
  next
    case descent
    have "pre \<noteq> []"
    proof
      assume "pre = []"
      with descent(1) show False
        by (simp add: resolve_def split: if_splits)
    qed
    moreover have "resolve_loop currentDeclaration (seg # later) =
        Inl (UnsupportedSelectorValue (selectorName sel))"
      using ident descent(2) narrowing by (rule resolve_loop_narrowing_failure)
    ultimately show ?thesis
      using descent(1) by (simp add: resolve_prefix)
  qed
qed

text \<open>
  \<^verbatim>\<open>Shape:constructor\<close> in first place, on the two declarations of \<^verbatim>\<open>Shape\<close>, and
  \<^verbatim>\<open>Button.(onClick:constructor)\<close> in second place, on the one child \<^verbatim>\<open>onClick\<close>.
\<close>

theorem resolve_unrecognized_tag_witness:
  "''constructor'' \<notin>
     {''class'', ''enum'', ''function'', ''interface'', ''namespace'', ''type'', ''variable''} \<and>
   tryGetExportOfAstModule widgetsTable ''Shape''
     (fetchAstModuleFromWorkingPackage widgetsTable (entryPointSourceFile widgets)) =
     Some (AstSymbol ''Shape'' [shapeInterface, shapeClass]) \<and>
   resolve widgetsTable widgets
     (localReference [systemMember ''Shape'' ''constructor'', plainMember ''area'']) =
     Inl (UnsupportedSelectorValue ''constructor'') \<and>
   resolve widgetsTable widgets (localReference [plainMember ''Button'']) = Inr buttonClass \<and>
   findChildrenWithName buttonClass ''onClick'' = [onClick] \<and>
   resolve widgetsTable widgets
     (localReference [plainMember ''Button'', systemMember ''onClick'' ''constructor'']) =
     Inl (UnsupportedSelectorValue ''constructor'')"
proof -
  have export:
    "tryGetExportOfAstModule widgetsTable ''Shape''
       (fetchAstModuleFromWorkingPackage widgetsTable (entryPointSourceFile widgets)) =
     Some (AstSymbol ''Shape'' [shapeInterface, shapeClass])"
    by (simp add: widgetsTable_def widgetsExports_def)
  have reached:
    "resolve widgetsTable widgets
       ((localReference [])\<lparr>memberReferences := [plainMember ''Button'']\<rparr>) = Inr buttonClass"
    by (simp add: localReference_def resolve_def truthy_def widgets_def widgetsTable_def
        widgetsExports_def plainMember_def getMemberReferenceIdentifier_def selectDeclaration_def)
  have children: "findChildrenWithName buttonClass ''onClick'' = [onClick]"
    by (simp add: buttonClass_def)
  have first:
    "resolve widgetsTable widgets
       ((localReference [])\<lparr>memberReferences :=
          [] @ systemMember ''Shape'' ''constructor'' # [plainMember ''area'']\<rparr>) =
     Inl (UnsupportedSelectorValue
       (selectorName \<lparr> selectorKind = System, selectorName = ''constructor'' \<rparr>))"
    using export
    by (intro resolve_unrecognized_tag [where memberName = "''Shape''"])
       (simp_all add: systemMember_def localReference_def)
  have second:
    "resolve widgetsTable widgets
       ((localReference [])\<lparr>memberReferences :=
          [plainMember ''Button''] @ systemMember ''onClick'' ''constructor'' # []\<rparr>) =
     Inl (UnsupportedSelectorValue
       (selectorName \<lparr> selectorKind = System, selectorName = ''constructor'' \<rparr>))"
    using reached children
    by (intro resolve_unrecognized_tag [where memberName = "''onClick''"])
       (simp_all add: systemMember_def)
  from export reached children first second show ?thesis
    by (simp add: localReference_def)
qed

text \<open>
  C3 as stated fails where the narrowing of the segment is not reached: \<^verbatim>\<open>Widget\<close> has
  no child \<^verbatim>\<open>resize\<close>, so \<^verbatim>\<open>Widget.(resize:constructor)\<close> ends in the failure of the
  child lookup, and the selector is never read.
\<close>

theorem resolve_unrecognized_tag_counterexample:
  "selector (systemMember ''resize'' ''constructor'') =
     Some \<lparr> selectorKind = System, selectorName = ''constructor'' \<rparr> \<and>
   ''constructor'' \<notin>
     {''class'', ''enum'', ''function'', ''interface'', ''namespace'', ''type'', ''variable''} \<and>
   resolve widgetsTable widgets
     (localReference [plainMember ''Widget'', systemMember ''resize'' ''constructor'']) =
     Inl (NoMatchingMember ''resize'') \<and>
   resolve widgetsTable widgets
     (localReference [plainMember ''Widget'', systemMember ''resize'' ''constructor'']) \<noteq>
     Inl (UnsupportedSelectorValue ''constructor'')"
  by (simp add: localReference_def resolve_def truthy_def widgets_def widgetsTable_def
      widgetsExports_def plainMember_def systemMember_def getMemberReferenceIdentifier_def
      selectDeclaration_def widgetClass_def NoMatchingMember_def UnsupportedSelectorValue_def)

text \<open>
  C4: a reference that declares a package name other than the working package's name.
  \<open>resolve\<close> returns the \<open>UnsupportedExternalPackage\<close> failure whatever the symbol
  table, the import path and the member references are: no other step comes before this
  check.
\<close>

theorem resolve_external_package:
  assumes "packageName ref = Some p"
    and "p \<noteq> name wp"
  shows "resolve st wp ref = Inl UnsupportedExternalPackage"
  using assms by (simp add: resolve_def UnsupportedExternalPackage_def)

text \<open>The reference \<^verbatim>\<open>other-pkg#Button\<close> in the package \<^verbatim>\<open>widgets\<close>.\<close>

theorem resolve_external_package_witness:
  "''other-pkg'' \<noteq> name widgets \<and>
   resolve widgetsTable widgets
     \<lparr> packageName = Some ''other-pkg'', importPath = None,
       memberReferences = [plainMember ''Button''] \<rparr> =
     Inl UnsupportedExternalPackage"
  using resolve_external_package
    [where ref = "\<lparr> packageName = Some ''other-pkg'', importPath = None,
                     memberReferences = [plainMember ''Button''] \<rparr>"
       and p = "''other-pkg''" and wp = widgets and st = widgetsTable]
  by (simp add: widgets_def)

text \<open>
  C5, as the code has it: a reference that declares a non-empty import path, and whose
  package name, if declared, is the working package's name. \<open>resolve\<close> returns the
  \<open>UnsupportedImportPath\<close> failure. The test on the import path is a truth test, so an
  import path that is the empty string is treated as absent: \<open>resolve\<close> gives the same
  result on a reference with the empty import path as on that reference with none.
\<close>

theorem resolve_import_path:
  "(importPath ref = Some path \<and> path \<noteq> [] \<and>
    (packageName ref = None \<or> packageName ref = Some (name wp)) \<longrightarrow>
      resolve st wp ref = Inl UnsupportedImportPath) \<and>
   resolve st wp (ref\<lparr>importPath := Some []\<rparr>) = resolve st wp (ref\<lparr>importPath := None\<rparr>)"
proof (intro conjI impI)
  assume "importPath ref = Some path \<and> path \<noteq> [] \<and>
    (packageName ref = None \<or> packageName ref = Some (name wp))"
  then show "resolve st wp ref = Inl UnsupportedImportPath"
    by (auto simp: resolve_def UnsupportedImportPath_def truthy_def)
next
  show "resolve st wp (ref\<lparr>importPath := Some []\<rparr>) = resolve st wp (ref\<lparr>importPath := None\<rparr>)"
    by (simp add: resolve_def truthy_def)
qed

text \<open>
  \<^verbatim>\<open>widgets/lib/button#Button\<close> is refused; \<^verbatim>\<open>Button\<close> with the empty import path
  resolves as \<^verbatim>\<open>Button\<close> with none does.
\<close>

theorem resolve_import_path_witness:
  "''/lib/button'' \<noteq> [] \<and>
   Some ''widgets'' = Some (name widgets) \<and>
   resolve widgetsTable widgets
     \<lparr> packageName = Some ''widgets'', importPath = Some ''/lib/button'',
       memberReferences = [plainMember ''Button''] \<rparr> =
     Inl UnsupportedImportPath \<and>
   resolve widgetsTable widgets
     \<lparr> packageName = Some ''widgets'', importPath = Some '''',
       memberReferences = [plainMember ''Button''] \<rparr> =
   resolve widgetsTable widgets
     \<lparr> packageName = Some ''widgets'', importPath = None,
       memberReferences = [plainMember ''Button''] \<rparr>"
  using
    resolve_import_path
      [where ref = "\<lparr> packageName = Some ''widgets'', importPath = Some ''/lib/button'',
                       memberReferences = [plainMember ''Button''] \<rparr>"
         and path = "''/lib/button''" and wp = widgets and st = widgetsTable]
    resolve_import_path
      [where ref = "\<lparr> packageName = Some ''widgets'', importPath = None,
                       memberReferences = [plainMember ''Button''] \<rparr>"
         and wp = widgets and st = widgetsTable]
  by (simp add: widgets_def)

text \<open>
  C5 as stated fails on a reference that declares the empty string as its import path:
  the truth test lets it pass, and \<^verbatim>\<open>Button\<close> resolves to its class.
\<close>

theorem resolve_empty_import_path_counterexample:
  "importPath
     \<lparr> packageName = Some ''widgets'', importPath = Some '''',
       memberReferences = [plainMember ''Button''] \<rparr> \<noteq> None \<and>
   resolve widgetsTable widgets
     \<lparr> packageName = Some ''widgets'', importPath = Some '''',
       memberReferences = [plainMember ''Button''] \<rparr> =
     Inr buttonClass \<and>
   resolve widgetsTable widgets
     \<lparr> packageName = Some ''widgets'', importPath = Some '''',
       memberReferences = [plainMember ''Button''] \<rparr> \<noteq>
     Inl UnsupportedImportPath"
  by (simp add: resolve_def truthy_def widgets_def widgetsTable_def widgetsExports_def
      plainMember_def getMemberReferenceIdentifier_def selectDeclaration_def)

text \<open>
  C6: descent has reached a declaration (the reference cut before the segment resolves to
  \<open>currentDeclaration\<close>), and the next segment has a plain name. The children looked up
  are those \<^verbatim>\<open>findChildrenWithName\<close> gives for this name; when there are none,
  \<open>resolve\<close> returns the \<open>NoMatchingMember\<close> failure naming the identifier, whatever
  segments come later.
\<close>

theorem resolve_no_matching_member:
  assumes "pre \<noteq> []"
    and "resolve st wp (ref\<lparr>memberReferences := pre\<rparr>) = Inr currentDeclaration"
    and "memberSymbol seg = None"
    and "memberIdentifier seg = Some (DocMemberIdentifier memberName)"
    and "findChildrenWithName currentDeclaration memberName = []"
  shows "resolve st wp (ref\<lparr>memberReferences := pre @ seg # later\<rparr>) =
           Inl (NoMatchingMember memberName)"
  using assms
  by (simp add: resolve_prefix getMemberReferenceIdentifier_def NoMatchingMember_def)

text \<open>
  \<^verbatim>\<open>Widget.resize\<close>, followed by a segment that would fail for want of an identifier if
  it were looked at.
\<close>

theorem resolve_no_matching_member_witness:
  "resolve widgetsTable widgets (localReference [plainMember ''Widget'']) = Inr widgetClass \<and>
   findChildrenWithName widgetClass ''resize'' = [] \<and>
   resolve widgetsTable widgets
     (localReference [plainMember ''Widget'', plainMember ''resize'', bareMember]) =
     Inl (NoMatchingMember ''resize'')"
proof -
  have reached:
    "resolve widgetsTable widgets
       ((localReference [])\<lparr>memberReferences := [plainMember ''Widget'']\<rparr>) = Inr widgetClass"
    by (simp add: localReference_def resolve_def truthy_def widgets_def widgetsTable_def
        widgetsExports_def plainMember_def getMemberReferenceIdentifier_def selectDeclaration_def)
  have none: "findChildrenWithName widgetClass ''resize'' = []"
    by (simp add: widgetClass_def)
  from resolve_no_matching_member
    [where pre = "[plainMember ''Widget'']" and seg = "plainMember ''resize''"
       and later = "[bareMember]" and memberName = "''resize''", OF _ reached _ _ none]
  have "resolve widgetsTable widgets
      ((localReference [])\<lparr>memberReferences :=
         [plainMember ''Widget''] @ plainMember ''resize'' # [bareMember]\<rparr>) =
      Inl (NoMatchingMember ''resize'')"
    by (simp add: plainMember_def)
  with reached none show ?thesis
    by (simp add: localReference_def)
qed

text \<open>
  C7: if a reference with the three segments \<open>a\<close>, \<open>b\<close>, \<open>c\<close> resolves, then the same
  reference cut down to \<open>a\<close>, \<open>b\<close> resolves as well, to a declaration \<open>n\<close>, and \<open>c\<close>
  names a child of \<open>n\<close>: \<open>c\<close> has a plain identifier, and the result is among the children
  that \<open>n\<close> gives for this identifier.
\<close>

theorem resolve_segment_monotonicity:
  assumes "resolve st wp (ref\<lparr>memberReferences := [a, b, c]\<rparr>) = Inr d"
  shows "\<exists>n memberName.
           resolve st wp (ref\<lparr>memberReferences := [a, b]\<rparr>) = Inr n \<and>
           memberIdentifier c = Some (DocMemberIdentifier memberName) \<and>
           d \<in> set (findChildrenWithName n memberName)"
proof -
  have "resolve st wp (ref\<lparr>memberReferences := [a, b] @ [c]\<rparr>) =
      (case resolve st wp (ref\<lparr>memberReferences := [a, b]\<rparr>) of
         Inl failure \<Rightarrow> Inl failure
       | Inr n \<Rightarrow> resolve_loop n [c])"
    by (rule resolve_prefix) simp
  with assms obtain n where n: "resolve st wp (ref\<lparr>memberReferences := [a, b]\<rparr>) = Inr n"
    and last: "resolve_loop n [c] = Inr d"
    by (auto split: sum.splits)
  from resolve_loop_single [OF last] n show ?thesis by blast
qed

text \<open>\<^verbatim>\<open>Shapes.Solid.Cube\<close> resolves, and so does \<^verbatim>\<open>Shapes.Solid\<close>.\<close>

theorem resolve_segment_monotonicity_witness:
  "resolve widgetsTable widgets
     (localReference [plainMember ''Shapes'', plainMember ''Solid'', plainMember ''Cube'']) =
     Inr cubeClass \<and>
   (\<exists>n memberName.
      resolve widgetsTable widgets
        (localReference [plainMember ''Shapes'', plainMember ''Solid'']) = Inr n \<and>
      memberIdentifier (plainMember ''Cube'') = Some (DocMemberIdentifier memberName) \<and>
      cubeClass \<in> set (findChildrenWithName n memberName))"
proof -
  have whole:
    "resolve widgetsTable widgets
       ((localReference [])\<lparr>memberReferences :=
          [plainMember ''Shapes'', plainMember ''Solid'', plainMember ''Cube'']\<rparr>) = Inr cubeClass"
    by (simp add: localReference_def resolve_def truthy_def widgets_def widgetsTable_def
        widgetsExports_def plainMember_def getMemberReferenceIdentifier_def selectDeclaration_def
        shapesNamespace_def solidNamespace_def)
  from resolve_segment_monotonicity [OF whole] whole show ?thesis
    by (simp add: localReference_def)
qed

text \<open>
  C8: a reference whose qualifier checks pass (its package name is absent or the working
  package's, its import path is absent or empty) and whose first segment carries a member
  symbol. \<open>resolve\<close> returns the \<open>UnsupportedSymbolSelector\<close> failure for every symbol
  table: the export lookup is not consulted.
\<close>

theorem resolve_symbol_keyed_root:
  assumes "packageName ref = None \<or> packageName ref = Some (name wp)"
    and "importPath ref = None \<or> importPath ref = Some []"
    and "memberReferences ref = rootMemberReference # later"
    and "memberSymbol rootMemberReference = Some memberSym"
  shows "resolve st wp ref = Inl UnsupportedSymbolSelector"
  using assms
  by (auto simp: resolve_def truthy_def getMemberReferenceIdentifier_def UnsupportedSymbolSelector_def)

text \<open>
  A first segment with a member symbol, and with the identifier of an export of the
  package as well.
\<close>

theorem resolve_symbol_keyed_root_witness:
  "widgetsExports ''Button'' (AstModule ''index'') = Some (AstSymbol ''Button'' [buttonClass]) \<and>
   resolve widgetsTable widgets
     (localReference
        [\<lparr> memberSymbol = Some (DocMemberSymbol ''Symbol.iterator''),
           memberIdentifier = Some (DocMemberIdentifier ''Button''),
           selector = None \<rparr>,
         plainMember ''onClick'']) =
     Inl UnsupportedSymbolSelector"
  using resolve_symbol_keyed_root
    [where ref = "localReference
        [\<lparr> memberSymbol = Some (DocMemberSymbol ''Symbol.iterator''),
           memberIdentifier = Some (DocMemberIdentifier ''Button''),
           selector = None \<rparr>,
         plainMember ''onClick'']"
       and wp = widgets and st = widgetsTable
       and rootMemberReference = "\<lparr> memberSymbol = Some (DocMemberSymbol ''Symbol.iterator''),
           memberIdentifier = Some (DocMemberIdentifier ''Button''),
           selector = None \<rparr>"
       and later = "[plainMember ''onClick'']"
       and memberSym = "DocMemberSymbol ''Symbol.iterator''"]
  by (simp add: localReference_def widgetsExports_def)

text \<open>
  C10, as the code has it: a segment at any position that has neither a member symbol nor
  a member identifier, in a reference whose qualifier checks pass and whose earlier
  segments resolve (the reference cut before the segment resolves to a declaration, or
  the segment is the first). \<open>resolve\<close> returns the failure whose reason is
  "The member identifier is missing in the root member reference", also when the
  segment is not the first one.
\<close>

theorem resolve_missing_identifier:
  assumes "packageName ref = None \<or> packageName ref = Some (name wp)"
    and "importPath ref = None \<or> importPath ref = Some []"
    and "pre = [] \<or> (\<exists>cur. resolve st wp (ref\<lparr>memberReferences := pre\<rparr>) = Inr cur)"
    and "memberSymbol seg = None"
    and "memberIdentifier seg = None"
  shows "resolve st wp (ref\<lparr>memberReferences := pre @ seg # later\<rparr>) =
           Inl (ResolverFailure ''The member identifier is missing in the root member reference'')"
proof (cases "pre = []")
  case True
  with assms show ?thesis
    by (auto simp: resolve_def truthy_def getMemberReferenceIdentifier_def)
next
  case False
  with assms(3) obtain cur where "resolve st wp (ref\<lparr>memberReferences := pre\<rparr>) = Inr cur"
    by blast
  with False assms(4,5) show ?thesis
    by (simp add: resolve_prefix getMemberReferenceIdentifier_def)
qed

text \<open>The defective segment in second place, after \<^verbatim>\<open>Button\<close>, and in first place.\<close>

theorem resolve_missing_identifier_witness:
  "resolve widgetsTable widgets (localReference [plainMember ''Button'']) = Inr buttonClass \<and>
   memberSymbol bareMember = None \<and>
   memberIdentifier bareMember = None \<and>
   resolve widgetsTable widgets (localReference [plainMember ''Button'', bareMember]) =
     Inl (ResolverFailure ''The member identifier is missing in the root member reference'') \<and>
   resolve widgetsTable widgets (localReference [bareMember, plainMember ''onClick'']) =
     Inl (ResolverFailure ''The member identifier is missing in the root member reference'')"
proof -
  have reached:
    "resolve widgetsTable widgets
       ((localReference [])\<lparr>memberReferences := [plainMember ''Button'']\<rparr>) = Inr buttonClass"
    by (simp add: localReference_def resolve_def truthy_def widgets_def widgetsTable_def
        widgetsExports_def plainMember_def getMemberReferenceIdentifier_def selectDeclaration_def)
  have bare: "memberSymbol bareMember = None" "memberIdentifier bareMember = None"
    by (simp_all add: bareMember_def)
  have second:
    "resolve widgetsTable widgets
       ((localReference [])\<lparr>memberReferences := [plainMember ''Button''] @ bareMember # []\<rparr>) =
     Inl (ResolverFailure ''The member identifier is missing in the root member reference'')"
    using reached bare
    by (intro resolve_missing_identifier) (auto simp: localReference_def)
  have first:
    "resolve widgetsTable widgets
       ((localReference [])\<lparr>memberReferences := [] @ bareMember # [plainMember ''onClick'']\<rparr>) =
     Inl (ResolverFailure ''The member identifier is missing in the root member reference'')"
    using bare
    by (intro resolve_missing_identifier) (auto simp: localReference_def)
  from reached bare second first show ?thesis
    by (simp add: localReference_def)
qed

text \<open>
  C10 as stated fails when an earlier segment fails: in \<^verbatim>\<open>Missing\<close> followed by a
  segment without symbol and identifier, the package has no export \<^verbatim>\<open>Missing\<close>, and
  \<open>resolve\<close> returns that failure.
\<close>

theorem resolve_missing_identifier_counterexample:
  \<open>memberSymbol bareMember = None \<and>
   memberIdentifier bareMember = None \<and>
   resolve widgetsTable widgets (localReference [plainMember ''Missing'', bareMember]) =
     Inl (ResolverFailure ''The package "widgets" does not have an export "Missing"'') \<and>
   resolve widgetsTable widgets (localReference [plainMember ''Missing'', bareMember]) \<noteq>
     Inl (ResolverFailure ''The member identifier is missing in the root member reference'')\<close>
  by (simp add: bareMember_def localReference_def resolve_def truthy_def widgets_def
      widgetsTable_def widgetsExports_def plainMember_def getMemberReferenceIdentifier_def)

end
